theory Spec2Isabelle
  imports Main "HOL-Library.Multiset"
begin

section \<open>The store behind \<open>db.getQuery\<close>\<close>

text \<open>
  The handlers of \<open>index.js\<close> talk to three tables of the core: \<open>swipes\<close>,
  \<open>matches\<close> and \<open>messages\<close>. A table is the list of its rows in insertion order; the
  \<open>id\<close> column of each is an auto-increment key, so the store carries the next key of
  every table. Ids are integers. The \<open>users\<close> and \<open>user_photos\<close> tables are not read by
  any handler of the core and are left out.

  The schema itself (\<open>classes/database.js\<close> and the table declarations) is not part of
  the repository. Two things of it matter and are made explicit: \<open>unique_pair\<close> says
  whether \<open>matches\<close> declares a uniqueness constraint on \<open>(user1_id, user2_id)\<close>, and
  \<open>sent_at\<close> is filled by the store from a clock reading handed to the insert. No
  other constraint is assumed, and a statement fails only on a duplicate key.
\<close>

record swipe_row =
  swipe_id :: int
  swiper_id :: int
  target_id :: int
  swipe_direction :: string

record match_row =
  match_row_id :: int
  user1_id :: int
  user2_id :: int

record message_row =
  message_id :: int
  match_id :: int
  sender_id :: int
  content :: string
  sent_at :: int

record database =
  swipes :: "swipe_row list"
  matches :: "match_row list"
  messages :: "message_row list"
  next_swipe_id :: int
  next_match_id :: int
  next_message_id :: int
  unique_pair :: bool

datatype sql_error = ER_DUP_ENTRY

text \<open>\<open>INSERT INTO swipes (swiper_id, target_id, direction) VALUES (?, ?, ?)\<close>\<close>

definition insert_swipe :: "database \<Rightarrow> int \<Rightarrow> int \<Rightarrow> string \<Rightarrow> database" where
  "insert_swipe db s t d =
     db\<lparr>swipes := swipes db @
            [\<lparr>swipe_id = next_swipe_id db, swiper_id = s, target_id = t, swipe_direction = d\<rparr>],
        next_swipe_id := next_swipe_id db + 1\<rparr>"

text \<open>\<open>SELECT id FROM swipes WHERE swiper_id = ? AND target_id = ? AND direction = ? LIMIT 1\<close>\<close>

definition select_swipe :: "database \<Rightarrow> int \<Rightarrow> int \<Rightarrow> string \<Rightarrow> int list" where
  "select_swipe db s t d =
     take 1 (map swipe_id
       (filter (\<lambda>r. swiper_id r = s \<and> target_id r = t \<and> swipe_direction r = d) (swipes db)))"

text \<open>\<open>SELECT id FROM matches WHERE (user1_id = ? AND user2_id = ?) LIMIT 1\<close>\<close>

definition select_match :: "database \<Rightarrow> int \<Rightarrow> int \<Rightarrow> int list" where
  "select_match db u1 u2 =
     take 1 (map match_row_id
       (filter (\<lambda>r. user1_id r = u1 \<and> user2_id r = u2) (matches db)))"

text \<open>
  \<open>INSERT INTO matches (user1_id, user2_id) VALUES (?, ?)\<close>: the new row and its
  \<open>insertId\<close>, or a duplicate-key error when the table has the uniqueness constraint
  and a row of the pair is there.
\<close>

definition insert_match :: "database \<Rightarrow> int \<Rightarrow> int \<Rightarrow> sql_error + database \<times> int" where
  "insert_match db u1 u2 =
     (if unique_pair db \<and> filter (\<lambda>r. user1_id r = u1 \<and> user2_id r = u2) (matches db) \<noteq> []
      then Inl ER_DUP_ENTRY
      else Inr (db\<lparr>matches := matches db @
                      [\<lparr>match_row_id = next_match_id db, user1_id = u1, user2_id = u2\<rparr>],
                   next_match_id := next_match_id db + 1\<rparr>,
                next_match_id db))"

text \<open>
  \<open>SELECT id FROM matches WHERE id = ? AND (user1_id = ? OR user2_id = ?) LIMIT 1\<close>
\<close>

definition select_member :: "database \<Rightarrow> int \<Rightarrow> int \<Rightarrow> int list" where
  "select_member db m u =
     take 1 (map match_row_id
       (filter (\<lambda>r. match_row_id r = m \<and> (user1_id r = u \<or> user2_id r = u)) (matches db)))"

text \<open>\<open>INSERT INTO messages (match_id, sender_id, content) VALUES (?, ?, ?)\<close>\<close>

definition insert_message :: "int \<Rightarrow> database \<Rightarrow> int \<Rightarrow> int \<Rightarrow> string \<Rightarrow> database \<times> int" where
  "insert_message now db m s c =
     (db\<lparr>messages := messages db @
            [\<lparr>message_id = next_message_id db, match_id = m, sender_id = s,
              content = c, sent_at = now\<rparr>],
         next_message_id := next_message_id db + 1\<rparr>,
      next_message_id db)"

text \<open>
  \<open>SELECT id, sender_id, content, sent_at FROM messages WHERE match_id = ?
  ORDER BY sent_at ASC\<close>. The statement names one sort key, and SQL leaves the order
  of rows with equal keys to the engine, so the result is not a function of the table:
  \<open>select_messages db m rows\<close> says that \<open>rows\<close> is a result the statement may
  return, the selected rows in some order that is ascending in \<open>sent_at\<close>.
\<close>

type_synonym message_out = "int \<times> int \<times> string \<times> int"

definition project_message :: "message_row \<Rightarrow> message_out" where
  "project_message r = (message_id r, sender_id r, content r, sent_at r)"

definition out_id :: "message_out \<Rightarrow> int" where
  "out_id r = fst r"

definition out_sent_at :: "message_out \<Rightarrow> int" where
  "out_sent_at r = snd (snd (snd r))"

definition select_messages :: "database \<Rightarrow> int \<Rightarrow> message_out list \<Rightarrow> bool" where
  "select_messages db m rows \<longleftrightarrow>
     mset rows = mset (map project_message (filter (\<lambda>r. match_id r = m) (messages db))) \<and>
     sorted_wrt (\<lambda>a b. out_sent_at a \<le> out_sent_at b) rows"

text \<open>The four \<open>DELETE\<close> statements of \<open>DELETE /admin/user/:id\<close> on the three tables.\<close>

definition delete_user_rows :: "database \<Rightarrow> int \<Rightarrow> database" where
  "delete_user_rows db u =
     db\<lparr>swipes := filter (\<lambda>r. \<not> (swiper_id r = u \<or> target_id r = u)) (swipes db),
        messages := filter (\<lambda>r. sender_id r \<noteq> u) (messages db),
        matches := filter (\<lambda>r. \<not> (user1_id r = u \<or> user2_id r = u)) (matches db)\<rparr>"

section \<open>Requests and responses\<close>

text \<open>
  The body of \<open>POST /swipe\<close> is untyped JSON, and the handler looks at its ids in three
  ways: by truthiness, through \<open>Number()\<close>, and by handing them to the store as they
  are. An id is a JSON integer or a JSON string. The model does not parse strings: a
  string comes with the number \<open>Number()\<close> gives for it (\<open>None\<close> is \<open>NaN\<close>) and
  with the integer the store reads it as where it meets an integer column (\<open>None\<close>
  when the store refuses it, as a strict SQL mode does with \<open>'abc'\<close>; a lenient one
  reads \<open>0\<close>). So \<open>"5"\<close> is \<open>JStr ''5'' (Some 5) (Some 5)\<close>. Numbers with a fraction,
  and strings that \<open>Number()\<close> reads as such, are left out.

  A field is \<open>None\<close> when the body has no such key or holds \<open>null\<close>. \<open>!x\<close> is
  true of a missing field, of the number \<open>0\<close> and of the empty string.
\<close>

datatype jsval = JNum int | JStr string "int option" "int option"

record swipe_body =
  swiperId :: "jsval option"
  targetId :: "jsval option"
  direction :: "string option"

text \<open>
  In the two chat endpoints the ids go to the store only, and a field holds the integer
  the store reads. The id fields of a JSON body are JSON integers there, \<open>None\<close> when
  missing or \<open>null\<close>. The parameters of a query string arrive as strings, of which
  only the empty one is falsy: there a field is \<open>None\<close> when it is missing or empty.
\<close>

record messages_query =
  qMatchId :: "int option"
  qUserId :: "int option"

record message_body =
  matchId :: "int option"
  senderId :: "int option"
  msgContent :: "string option"

datatype body =
    Message string
  | SwipeResult string bool "int option"
  | Rows "message_out list"
  | Sent string int

datatype response = Response (status: nat) (body: body)

fun matched :: "response \<Rightarrow> bool option" where
  "matched (Response _ (SwipeResult _ m _)) = Some m"
| "matched _ = None"

fun matchId_of :: "response \<Rightarrow> int option" where
  "matchId_of (Response _ (SwipeResult _ _ i)) = i"
| "matchId_of _ = None"

fun truthy :: "jsval option \<Rightarrow> bool" where
  "truthy None = False"
| "truthy (Some (JNum n)) = (n \<noteq> 0)"
| "truthy (Some (JStr s j c)) = (s \<noteq> [])"

fun truthy_id :: "int option \<Rightarrow> bool" where
  "truthy_id None = False"
| "truthy_id (Some n) = (n \<noteq> 0)"

fun truthy_str :: "string option \<Rightarrow> bool" where
  "truthy_str None = False"
| "truthy_str (Some s) = (s \<noteq> [])"

fun present :: "int option \<Rightarrow> bool" where
  "present None = False"
| "present (Some n) = True"

text \<open>
  \<open>Number(x)\<close>, with \<open>None\<close> for \<open>NaN\<close>, and the two comparisons of JavaScript
  numbers the handler uses: \<open>===\<close> and \<open><\<close> are both false when a side is
  \<open>NaN\<close>, also \<open>NaN === NaN\<close>.
\<close>

fun Number :: "jsval \<Rightarrow> int option" where
  "Number (JNum n) = Some n"
| "Number (JStr s j c) = j"

fun strict_equals :: "int option \<Rightarrow> int option \<Rightarrow> bool" where
  "strict_equals (Some m) (Some n) = (m = n)"
| "strict_equals _ _ = False"

fun less_than :: "int option \<Rightarrow> int option \<Rightarrow> bool" where
  "less_than (Some m) (Some n) = (m < n)"
| "less_than _ _ = False"

text \<open>
  The integer the store reads a parameter as. A statement with a parameter it cannot
  read, or with \<open>NaN\<close> (which is no SQL value), throws.
\<close>

fun sql_int :: "jsval \<Rightarrow> int option" where
  "sql_int (JNum n) = Some n"
| "sql_int (JStr s j c) = c"

text \<open>The dash of the two match messages, as the bytes of its UTF-8 encoding.\<close>

definition em_dash :: string where
  "em_dash = [CHR 0xE2, CHR 0x80, CHR 0x94]"

definition swipe_invalid :: response where
  "swipe_invalid = Response 400 (Message ''swiperId, targetId en geldige direction zijn vereist.'')"

definition swipe_self :: response where
  "swipe_self = Response 400 (Message ''Je kan niet op jezelf swipen.'')"

definition swipe_new_match :: "int \<Rightarrow> response" where
  "swipe_new_match insertId =
     Response 200 (SwipeResult (''Swipe opgeslagen '' @ em_dash @ '' MATCH!'') True (Some insertId))"

definition swipe_existing_match :: response where
  "swipe_existing_match =
     Response 200 (SwipeResult (''Swipe opgeslagen '' @ em_dash @ '' match bestond al.'') True None)"

definition swipe_saved :: response where
  "swipe_saved = Response 200 (SwipeResult ''Swipe opgeslagen'' False None)"

definition swipe_failed :: response where
  "swipe_failed = Response 500 (Message ''Serverfout bij swipen.'')"

definition messages_invalid :: response where
  "messages_invalid = Response 400 (Message ''matchId en userId zijn vereist.'')"

definition message_invalid :: response where
  "message_invalid = Response 400 (Message ''matchId, senderId en content zijn vereist.'')"

definition no_access :: response where
  "no_access = Response 403 (Message ''Geen toegang tot deze match.'')"

section \<open>Helpers\<close>

text \<open>\<open>orderPair(a, b)\<close>: the lower id first.\<close>

definition orderPair :: "jsval \<Rightarrow> jsval \<Rightarrow> int option \<times> int option" where
  "orderPair a b =
     (if less_than (Number a) (Number b) then (Number a, Number b) else (Number b, Number a))"

text \<open>\<open>userInMatch(matchId, userId)\<close>: \<open>rows.length > 0\<close>.\<close>

definition userInMatch :: "database \<Rightarrow> int \<Rightarrow> int \<Rightarrow> bool" where
  "userInMatch db m u = (length (select_member db m u) > 0)"

section \<open>\<open>POST /swipe\<close>\<close>

text \<open>
  The handler run alone, from the request to the response, with the store before and
  after. The \<open>catch\<close> of the handler answers 500 when a statement throws: on a
  parameter the store cannot take, and on the duplicate key of \<open>insert_match\<close>.
\<close>

definition post_swipe :: "database \<Rightarrow> swipe_body \<Rightarrow> database \<times> response" where
  "post_swipe db req =
     (if \<not> truthy (swiperId req) \<or> \<not> truthy (targetId req) \<or>
         direction req \<notin> {Some ''left'', Some ''right''}
      then (db, swipe_invalid)
      else
        case (swiperId req, targetId req, direction req) of
          (Some a, Some b, Some d) \<Rightarrow>
            if strict_equals (Number a) (Number b) then (db, swipe_self)
            else
              (case (sql_int a, sql_int b) of
                 (Some s, Some t) \<Rightarrow>
                   let db1 = insert_swipe db s t d in
                   if d = ''right'' then
                     if select_swipe db1 t s ''right'' \<noteq> [] then
                       case orderPair a b of
                         (Some u1, Some u2) \<Rightarrow>
                           if select_match db1 u1 u2 = [] then
                             case insert_match db1 u1 u2 of
                               Inr (db2, insertId) \<Rightarrow> (db2, swipe_new_match insertId)
                             | Inl e \<Rightarrow> (db1, swipe_failed)
                           else (db1, swipe_existing_match)
                       | _ \<Rightarrow> (db1, swipe_failed)
                     else (db1, swipe_saved)
                   else (db1, swipe_saved)
               | _ \<Rightarrow> (db, swipe_failed))
        | _ \<Rightarrow> (db, swipe_invalid))"

text \<open>
  The same handler between its \<open>await\<close>s. Node runs a handler without interruption
  up to the next \<open>await db.getQuery\<close>, and the store runs one statement at a time,
  so a step is: one statement, then the handler's code up to the statement after it.
  A task is where a handler stands.
\<close>

datatype swipe_task =
    Received swipe_body
  | Stored jsval jsval
  | Reciprocal "int option" "int option"
  | Absent int int
  | Finished response

datatype statement = InsertSwipe | SelectSwipe | SelectMatch | InsertMatch

text \<open>
  One step of a task: the statement it sent to the store (none when the request is
  refused before the first statement, or the task has finished), the store after the
  statement, and where the handler stands then.
\<close>

fun swipe_step :: "database \<Rightarrow> swipe_task \<Rightarrow> statement option \<times> database \<times> swipe_task" where
  "swipe_step db (Received req) =
     (if \<not> truthy (swiperId req) \<or> \<not> truthy (targetId req) \<or>
         direction req \<notin> {Some ''left'', Some ''right''}
      then (None, db, Finished swipe_invalid)
      else
        case (swiperId req, targetId req, direction req) of
          (Some a, Some b, Some d) \<Rightarrow>
            if strict_equals (Number a) (Number b) then (None, db, Finished swipe_self)
            else
              (case (sql_int a, sql_int b) of
                 (Some s, Some t) \<Rightarrow>
                   (Some InsertSwipe, insert_swipe db s t d,
                    if d = ''right'' then Stored a b else Finished swipe_saved)
               | _ \<Rightarrow> (Some InsertSwipe, db, Finished swipe_failed))
        | _ \<Rightarrow> (None, db, Finished swipe_invalid))"
| "swipe_step db (Stored a b) =
     (case (sql_int a, sql_int b) of
        (Some s, Some t) \<Rightarrow>
          if select_swipe db t s ''right'' \<noteq> []
          then (case orderPair a b of (u1, u2) \<Rightarrow> (Some SelectSwipe, db, Reciprocal u1 u2))
          else (Some SelectSwipe, db, Finished swipe_saved)
      | _ \<Rightarrow> (Some SelectSwipe, db, Finished swipe_failed))"
| "swipe_step db (Reciprocal (Some u1) (Some u2)) =
     (if select_match db u1 u2 = [] then (Some SelectMatch, db, Absent u1 u2)
      else (Some SelectMatch, db, Finished swipe_existing_match))"
| "swipe_step db (Reciprocal _ _) = (Some SelectMatch, db, Finished swipe_failed)"
| "swipe_step db (Absent u1 u2) =
     (case insert_match db u1 u2 of
        Inr (db2, insertId) \<Rightarrow> (Some InsertMatch, db2, Finished (swipe_new_match insertId))
      | Inl e \<Rightarrow> (Some InsertMatch, db, Finished swipe_failed))"
| "swipe_step db (Finished r) = (None, db, Finished r)"

text \<open>A task run alone for \<open>n\<close> steps, with the statements it sent, in order.\<close>

fun swipe_run :: "nat \<Rightarrow> database \<Rightarrow> swipe_task \<Rightarrow> statement list \<times> database \<times> swipe_task" where
  "swipe_run 0 db t = ([], db, t)"
| "swipe_run (Suc n) db t =
     (case swipe_step db t of (st, db1, t1) \<Rightarrow>
        case swipe_run n db1 t1 of (sts, db2, t2) \<Rightarrow>
          ((case st of None \<Rightarrow> [] | Some x \<Rightarrow> [x]) @ sts, db2, t2))"

text \<open>
  Requests in flight together: the store and one task per request. A schedule names,
  step by step, the request whose pending statement the store runs next.
\<close>

type_synonym flight = "database \<times> swipe_task list"

definition flight_step :: "nat \<Rightarrow> flight \<Rightarrow> flight" where
  "flight_step i c =
     (case c of (db, ts) \<Rightarrow>
        if i < length ts
        then (case swipe_step db (ts ! i) of (st, db1, t1) \<Rightarrow> (db1, ts[i := t1]))
        else (db, ts))"

fun run_schedule :: "nat list \<Rightarrow> flight \<Rightarrow> flight" where
  "run_schedule [] c = c"
| "run_schedule (i # is) c = run_schedule is (flight_step i c)"

section \<open>Chat\<close>

text \<open>
  \<open>GET /messages\<close>. The result of its last statement is not a function of the
  table, so the handler is a relation: \<open>get_messages db q (db', r)\<close> says that the
  handler may answer \<open>r\<close> and leave the store \<open>db'\<close>. Both statements are
  \<open>SELECT\<close>s, which hand the store on as it is.
\<close>

definition get_messages :: "database \<Rightarrow> messages_query \<Rightarrow> database \<times> response \<Rightarrow> bool" where
  "get_messages db q out =
     (if \<not> present (qMatchId q) \<or> \<not> present (qUserId q) then out = (db, messages_invalid)
      else
        case (qMatchId q, qUserId q) of
          (Some m, Some u) \<Rightarrow>
            if \<not> userInMatch db m u then out = (db, no_access)
            else (case out of
                    (db1, Response st (Rows rows)) \<Rightarrow>
                      db1 = db \<and> st = 200 \<and> select_messages db m rows
                  | _ \<Rightarrow> False)
        | _ \<Rightarrow> out = (db, messages_invalid))"

definition post_messages :: "int \<Rightarrow> database \<Rightarrow> message_body \<Rightarrow> database \<times> response" where
  "post_messages now db req =
     (if \<not> truthy_id (matchId req) \<or> \<not> truthy_id (senderId req) \<or>
         \<not> truthy_str (msgContent req)
      then (db, message_invalid)
      else
        case (matchId req, senderId req, msgContent req) of
          (Some m, Some s, Some c) \<Rightarrow>
            if \<not> userInMatch db m s then (db, no_access)
            else (case insert_message now db m s c of
                    (db1, insertId) \<Rightarrow> (db1, Response 201 (Sent ''Bericht verstuurd.'' insertId)))
        | _ \<Rightarrow> (db, message_invalid))"

section \<open>\<open>DELETE /admin/user/:id\<close>\<close>

definition admin_delete_user :: "database \<Rightarrow> int \<Rightarrow> database \<times> response" where
  "admin_delete_user db u = (delete_user_rows db u, Response 200 (Message ''Gebruiker verwijderd.''))"

section \<open>Sequential service\<close>

text \<open>
  The endpoints that write to the three tables, and a server that handles one request
  after the other. \<open>SendMessage\<close> carries the clock reading of its insert.
\<close>

datatype request = Swipe swipe_body | SendMessage int message_body | DeleteUser int

fun serve :: "database \<Rightarrow> request \<Rightarrow> database \<times> response" where
  "serve db (Swipe req) = post_swipe db req"
| "serve db (SendMessage now req) = post_messages now db req"
| "serve db (DeleteUser u) = admin_delete_user db u"

fun serve_all :: "database \<Rightarrow> request list \<Rightarrow> database" where
  "serve_all db [] = db"
| "serve_all db (r # rs) = serve_all (fst (serve db r)) rs"

section \<open>Properties of the store\<close>

text \<open>
  Every row of \<open>matches\<close> holds a canonical pair, and no two rows hold the same one.
\<close>

definition one_match_per_pair :: "database \<Rightarrow> bool" where
  "one_match_per_pair db \<longleftrightarrow>
     list_all (\<lambda>r. user1_id r < user2_id r) (matches db) \<and>
     distinct (map (\<lambda>r. (user1_id r, user2_id r)) (matches db))"

definition pair_rows :: "database \<Rightarrow> int \<Rightarrow> int \<Rightarrow> match_row list" where
  "pair_rows db a b =
     filter (\<lambda>r. (Some (user1_id r), Some (user2_id r)) = orderPair (JNum a) (JNum b))
       (matches db)"

definition empty_db :: "bool \<Rightarrow> database" where
  "empty_db u = \<lparr>swipes = [], matches = [], messages = [], next_swipe_id = 1,
     next_match_id = 1, next_message_id = 1, unique_pair = u\<rparr>"

definition right_swipe :: "int \<Rightarrow> int \<Rightarrow> swipe_body" where
  "right_swipe s t =
     \<lparr>swiperId = Some (JNum s), targetId = Some (JNum t), direction = Some ''right''\<rparr>"

definition left_swipe :: "int \<Rightarrow> int \<Rightarrow> swipe_body" where
  "left_swipe s t =
     \<lparr>swiperId = Some (JNum s), targetId = Some (JNum t), direction = Some ''left''\<rparr>"

text \<open>The spec's order of a message list: ascending in \<open>sentAt\<close>, then in \<open>id\<close>.\<close>

definition spec_message_order :: "message_out list \<Rightarrow> bool" where
  "spec_message_order rows \<longleftrightarrow>
     sorted_wrt (\<lambda>a b. out_sent_at a < out_sent_at b \<or>
                        (out_sent_at a = out_sent_at b \<and> out_id a \<le> out_id b)) rows"

section \<open>Scenarios\<close>

text \<open>
  The scenario of users 5 and 9, from an empty store: 5 swipes right on 9, then 9 on 5,
  then both send a message within the same clock reading of the store.
\<close>

definition db_first :: database where
  "db_first = fst (post_swipe (empty_db False) (right_swipe 5 9))"

definition db_matched :: database where
  "db_matched = fst (post_swipe db_first (right_swipe 9 5))"

definition db_chat :: database where
  "db_chat =
     fst (post_messages 100
       (fst (post_messages 100 db_matched
          \<lparr>matchId = Some 1, senderId = Some 5, msgContent = Some ''hi''\<rparr>))
       \<lparr>matchId = Some 1, senderId = Some 9, msgContent = Some ''hello''\<rparr>)"

text \<open>
  The two reciprocal right swipes in flight together, their statements reaching the
  store in turn.
\<close>

definition racing :: "bool \<Rightarrow> flight" where
  "racing u =
     run_schedule [0, 1, 0, 1, 0, 1, 0, 1]
       (empty_db u, [Received (right_swipe 5 9), Received (right_swipe 9 5)])"


section \<open>Facts about the statements and the handler\<close>

lemma insert_swipe_simps [simp]:
  "matches (insert_swipe db s t d) = matches db"
  "messages (insert_swipe db s t d) = messages db"
  "unique_pair (insert_swipe db s t d) = unique_pair db"
  "next_match_id (insert_swipe db s t d) = next_match_id db"
  "swipes (insert_swipe db s t d) = swipes db @
     [\<lparr>swipe_id = next_swipe_id db, swiper_id = s, target_id = t, swipe_direction = d\<rparr>]"
  by (simp_all add: insert_swipe_def)

lemma select_match_insert_swipe [simp]:
  "select_match (insert_swipe db s t d) u1 u2 = select_match db u1 u2"
  by (simp add: select_match_def)

lemma select_swipe_insert_swipe:
  "s \<noteq> t \<Longrightarrow> select_swipe (insert_swipe db s t d) t s d' = select_swipe db t s d'"
  by (simp add: select_swipe_def)

lemma orderPair_JNum:
  "orderPair (JNum s) (JNum t) = (Some (min s t), Some (max s t))"
  by (simp add: orderPair_def min_def max_def)

lemma orderPair_less:
  "orderPair a b = (Some u1, Some u2) \<Longrightarrow> \<not> strict_equals (Number a) (Number b) \<Longrightarrow> u1 < u2"
  by (cases "Number a"; cases "Number b") (auto simp: orderPair_def split: if_splits)

lemma post_swipe_invalid:
  "\<not> truthy (swiperId req) \<or> \<not> truthy (targetId req) \<or>
     direction req \<notin> {Some ''left'', Some ''right''} \<Longrightarrow>
   post_swipe db req = (db, swipe_invalid)"
  by (simp add: post_swipe_def)

lemma post_swipe_self:
  "swiperId req = Some a \<Longrightarrow> targetId req = Some b \<Longrightarrow>
   strict_equals (Number a) (Number b) \<Longrightarrow>
   post_swipe db req = (db, swipe_invalid) \<or> post_swipe db req = (db, swipe_self)"
  by (cases "direction req") (simp_all add: post_swipe_def)

lemma post_swipe_unreadable:
  assumes "swiperId req = Some a" "targetId req = Some b" "truthy (Some a)" "truthy (Some b)"
    and "direction req = Some ''left'' \<or> direction req = Some ''right''"
    and "\<not> strict_equals (Number a) (Number b)" "sql_int a = None \<or> sql_int b = None"
  shows "post_swipe db req = (db, swipe_failed)"
  using assms by (auto simp: post_swipe_def split: option.splits)

lemma post_swipe_left_any:
  assumes "swiperId req = Some a" "targetId req = Some b" "truthy (Some a)" "truthy (Some b)"
    and "direction req = Some ''left''" "\<not> strict_equals (Number a) (Number b)"
    and "sql_int a = Some s" "sql_int b = Some t"
  shows "post_swipe db req = (insert_swipe db s t ''left'', swipe_saved)"
  using assms by (simp add: post_swipe_def)

lemma post_swipe_left:
  assumes "swiperId req = Some (JNum s)" "targetId req = Some (JNum t)"
    and "direction req = Some ''left''" "s \<noteq> 0" "t \<noteq> 0" "s \<noteq> t"
  shows "post_swipe db req = (insert_swipe db s t ''left'', swipe_saved)"
  using assms by (simp add: post_swipe_def)

lemma post_swipe_right:
  assumes "swiperId req = Some (JNum s)" "targetId req = Some (JNum t)"
    and "direction req = Some ''right''" "s \<noteq> 0" "t \<noteq> 0" "s \<noteq> t"
  shows "post_swipe db req =
     (let db1 = insert_swipe db s t ''right'' in
      if select_swipe db t s ''right'' = [] then (db1, swipe_saved)
      else if select_match db (min s t) (max s t) \<noteq> [] then (db1, swipe_existing_match)
      else (case insert_match db1 (min s t) (max s t) of
              Inr (db2, insertId) \<Rightarrow> (db2, swipe_new_match insertId)
            | Inl e \<Rightarrow> (db1, swipe_failed)))"
  using assms
  by (simp add: post_swipe_def Let_def select_swipe_insert_swipe orderPair_JNum)

lemma swipe_run_4:
  "swipe_run 4 db t =
     (case swipe_step db t of (st1, db1, t1) \<Rightarrow>
      case swipe_step db1 t1 of (st2, db2, t2) \<Rightarrow>
      case swipe_step db2 t2 of (st3, db3, t3) \<Rightarrow>
      case swipe_step db3 t3 of (st4, db4, t4) \<Rightarrow>
        ((case st1 of None \<Rightarrow> [] | Some x \<Rightarrow> [x]) @ (case st2 of None \<Rightarrow> [] | Some x \<Rightarrow> [x]) @
         (case st3 of None \<Rightarrow> [] | Some x \<Rightarrow> [x]) @ (case st4 of None \<Rightarrow> [] | Some x \<Rightarrow> [x]), db4, t4))"
  by (simp add: numeral_eq_Suc split: prod.splits)

lemma swipe_run_invalid:
  "\<not> truthy (swiperId req) \<or> \<not> truthy (targetId req) \<or>
     direction req \<notin> {Some ''left'', Some ''right''} \<Longrightarrow>
   swipe_run 4 db (Received req) = ([], db, Finished swipe_invalid)"
  by (simp add: swipe_run_4)

lemma swipe_run_self:
  "swiperId req = Some a \<Longrightarrow> targetId req = Some b \<Longrightarrow>
   strict_equals (Number a) (Number b) \<Longrightarrow>
   swipe_run 4 db (Received req) = ([], db, Finished (snd (post_swipe db req)))"
  by (cases "direction req") (simp_all add: post_swipe_def swipe_run_4)

lemma swipe_run_unreadable:
  assumes "swiperId req = Some a" "targetId req = Some b" "truthy (Some a)" "truthy (Some b)"
    and "direction req = Some ''left'' \<or> direction req = Some ''right''"
    and "\<not> strict_equals (Number a) (Number b)" "sql_int a = None \<or> sql_int b = None"
  shows "swipe_run 4 db (Received req) = ([InsertSwipe], db, Finished swipe_failed)"
  using assms by (auto simp: swipe_run_4 split: option.splits)

lemma swipe_run_left_any:
  assumes "swiperId req = Some a" "targetId req = Some b" "truthy (Some a)" "truthy (Some b)"
    and "direction req = Some ''left''" "\<not> strict_equals (Number a) (Number b)"
    and "sql_int a = Some s" "sql_int b = Some t"
  shows "swipe_run 4 db (Received req) =
     ([InsertSwipe], insert_swipe db s t ''left'', Finished swipe_saved)"
  using assms by (simp add: swipe_run_4)

lemma swipe_run_left:
  assumes "swiperId req = Some (JNum s)" "targetId req = Some (JNum t)"
    and "direction req = Some ''left''" "s \<noteq> 0" "t \<noteq> 0" "s \<noteq> t"
  shows "swipe_run 4 db (Received req) =
     ([InsertSwipe], insert_swipe db s t ''left'', Finished swipe_saved)"
  using assms by (simp add: swipe_run_4)

lemma select_match_empty:
  "select_match db u1 u2 = [] \<longleftrightarrow>
     (u1, u2) \<notin> set (map (\<lambda>r. (user1_id r, user2_id r)) (matches db))"
  by (auto simp: select_match_def filter_empty_conv)

lemma insert_match_fresh:
  "select_match db u1 u2 = [] \<Longrightarrow>
   insert_match db u1 u2 =
     Inr (db\<lparr>matches := matches db @
                [\<lparr>match_row_id = next_match_id db, user1_id = u1, user2_id = u2\<rparr>],
             next_match_id := next_match_id db + 1\<rparr>, next_match_id db)"
  by (auto simp: insert_match_def select_match_def filter_empty_conv)

lemma one_match_insert:
  assumes "one_match_per_pair db" "u1 < u2" "select_match db u1 u2 = []"
  shows "one_match_per_pair
     (db\<lparr>matches := matches db @
            [\<lparr>match_row_id = next_match_id db, user1_id = u1, user2_id = u2\<rparr>],
         next_match_id := next_match_id db + 1\<rparr>)"
  using assms by (simp add: one_match_per_pair_def select_match_empty)

lemma one_match_insert_swipe:
  "one_match_per_pair (insert_swipe db s t d) = one_match_per_pair db"
  by (simp add: one_match_per_pair_def)

text \<open>
  What a swipe does to \<open>matches\<close>, for every request: nothing, or one new row of a
  canonical pair that was not there.
\<close>

lemma post_swipe_matches:
  "matches (fst (post_swipe db req)) = matches db \<or>
   (\<exists>u1 u2. u1 < u2 \<and> select_match db u1 u2 = [] \<and>
      matches (fst (post_swipe db req)) = matches db @
        [\<lparr>match_row_id = next_match_id db, user1_id = u1, user2_id = u2\<rparr>])"
proof (cases "truthy (swiperId req) \<and> truthy (targetId req) \<and>
    direction req \<in> {Some ''left'', Some ''right''}")
  case False
  then show ?thesis by (auto simp: post_swipe_invalid)
next
  case True
  then obtain a b d where f: "swiperId req = Some a" "targetId req = Some b"
    "direction req = Some d"
    by (cases "swiperId req"; cases "targetId req"; cases "direction req") auto
  show ?thesis
  proof (cases "strict_equals (Number a) (Number b)")
    case True
    with f post_swipe_self [of req a b db] show ?thesis by auto
  next
    case ne: False
    show ?thesis
    proof (cases "sql_int a")
      case None
      with f True ne show ?thesis by (simp add: post_swipe_def)
    next
      case s: (Some s)
      show ?thesis
      proof (cases "sql_int b")
        case None
        with f True ne s show ?thesis by (simp add: post_swipe_def)
      next
        case t: (Some t)
        let ?db1 = "insert_swipe db s t d"
        obtain x y where op: "orderPair a b = (x, y)" by (cases "orderPair a b")
        show ?thesis
        proof (cases "d = ''right'' \<and> select_swipe ?db1 t s ''right'' \<noteq> [] \<and>
            (\<exists>u1 u2. x = Some u1 \<and> y = Some u2 \<and> select_match db u1 u2 = [])")
          case False
          with f True ne s t op show ?thesis
            by (auto simp: post_swipe_def Let_def split: option.splits)
        next
          case True
          then obtain u1 u2 where u: "x = Some u1" "y = Some u2" "select_match db u1 u2 = []"
            and d: "d = ''right''"
            and rev: "select_swipe (insert_swipe db s t ''right'') t s ''right'' \<noteq> []"
            by auto
          from u have absent: "select_match (insert_swipe db s t ''right'') u1 u2 = []"
            by simp
          from op u ne have "u1 < u2" by (auto dest: orderPair_less)
          moreover from f \<open>truthy (swiperId req) \<and> truthy (targetId req) \<and>
              direction req \<in> {Some ''left'', Some ''right''}\<close> ne s t op u d rev
          have "matches (fst (post_swipe db req)) = matches db @
              [\<lparr>match_row_id = next_match_id db, user1_id = u1, user2_id = u2\<rparr>]"
            by (simp add: post_swipe_def Let_def insert_match_fresh [OF absent])
          ultimately show ?thesis using u by blast
        qed
      qed
    qed
  qed
qed

lemma post_swipe_preserves:
  assumes "one_match_per_pair db"
  shows "one_match_per_pair (fst (post_swipe db req))"
  using post_swipe_matches [of db req] assms
  by (auto simp: one_match_per_pair_def select_match_empty)

lemma post_messages_matches: "matches (fst (post_messages now db req)) = matches db"
  by (cases "matchId req"; cases "senderId req"; cases "msgContent req")
     (simp_all add: post_messages_def insert_message_def)

lemma post_messages_preserves:
  "one_match_per_pair db \<Longrightarrow> one_match_per_pair (fst (post_messages now db req))"
  by (simp add: one_match_per_pair_def post_messages_matches)

lemma admin_delete_preserves:
  "one_match_per_pair db \<Longrightarrow> one_match_per_pair (fst (admin_delete_user db u))"
  by (simp add: one_match_per_pair_def admin_delete_user_def delete_user_rows_def
      list_all_iff distinct_map_filter)

lemma serve_preserves:
  "one_match_per_pair db \<Longrightarrow> one_match_per_pair (fst (serve db r))"
  by (cases r) (simp_all add: post_swipe_preserves post_messages_preserves admin_delete_preserves)

lemma serve_all_preserves:
  "one_match_per_pair db \<Longrightarrow> one_match_per_pair (serve_all db rs)"
  by (induction rs arbitrary: db) (simp_all add: serve_preserves)

lemma filter_key_singleton:
  "distinct (map f xs) \<Longrightarrow> x \<in> set xs \<Longrightarrow> filter (\<lambda>y. f y = f x) xs = [x]"
proof (induction xs)
  case Nil
  then show ?case by simp
next
  case (Cons a as)
  show ?case
  proof (cases "a = x")
    case True
    with Cons.prems have "\<forall>y \<in> set as. f y \<noteq> f x"
      by (metis distinct.simps(2) image_eqI list.simps(9) set_map)
    then have "filter (\<lambda>y. f y = f x) as = []" by (simp add: filter_empty_conv)
    with True show ?thesis by simp
  next
    case False
    with Cons.prems have "x \<in> set as" "f a \<noteq> f x" by auto
    with Cons show ?thesis by simp
  qed
qed

lemma existing_row_found:
  assumes "one_match_per_pair db" "r \<in> set (matches db)" "{user1_id r, user2_id r} = {s, t}"
  shows "s \<noteq> t \<and> user1_id r = min s t \<and> user2_id r = max s t \<and>
     select_match db (min s t) (max s t) = [match_row_id r]"
proof -
  have lt: "user1_id r < user2_id r"
    using assms(1,2) by (simp add: one_match_per_pair_def list_all_iff)
  with assms(3) have ne: "s \<noteq> t" and lo: "user1_id r = min s t" and hi: "user2_id r = max s t"
    by (auto simp: doubleton_eq_iff)
  have dist: "distinct (map (\<lambda>r. (user1_id r, user2_id r)) (matches db))"
    using assms(1) by (simp add: one_match_per_pair_def)
  have "filter (\<lambda>y. (user1_id y, user2_id y) = (user1_id r, user2_id r)) (matches db) = [r]"
    using filter_key_singleton [OF dist assms(2)] by simp
  then have "filter (\<lambda>y. user1_id y = min s t \<and> user2_id y = max s t) (matches db) = [r]"
    using lo hi by (simp add: prod_eq_iff)
  then have "select_match db (min s t) (max s t) = [match_row_id r]"
    by (simp add: select_match_def)
  with ne lo hi show ?thesis by simp
qed

lemma swipe_run_right:
  assumes "swiperId req = Some (JNum s)" "targetId req = Some (JNum t)"
    and "direction req = Some ''right''" "s \<noteq> 0" "t \<noteq> 0" "s \<noteq> t"
  shows "\<exists>sts. swipe_run 4 db (Received req) =
           (InsertSwipe # sts, fst (post_swipe db req), Finished (snd (post_swipe db req))) \<and>
         InsertSwipe \<notin> set sts"
proof -
  let ?db1 = "insert_swipe db s t ''right''"
  let ?u1 = "min s t" and ?u2 = "max s t"
  have first: "swipe_step db (Received req) = (Some InsertSwipe, ?db1, Stored (JNum s) (JNum t))"
    using assms by simp
  have rev: "select_swipe ?db1 t s ''right'' = select_swipe db t s ''right''"
    using assms by (simp add: select_swipe_insert_swipe)
  show ?thesis
  proof (cases "select_swipe db t s ''right'' = []")
    case True
    then show ?thesis
      using assms first rev by (simp add: swipe_run_4 post_swipe_right)
  next
    case reciprocal: False
    then have second: "swipe_step ?db1 (Stored (JNum s) (JNum t)) =
        (Some SelectSwipe, ?db1, Reciprocal (Some ?u1) (Some ?u2))"
      using rev by (simp add: orderPair_JNum)
    show ?thesis
    proof (cases "select_match db ?u1 ?u2 = []")
      case False
      then show ?thesis
        using assms first second reciprocal by (simp add: swipe_run_4 post_swipe_right)
    next
      case True
      then have absent: "select_match ?db1 ?u1 ?u2 = []" by simp
      show ?thesis
        using assms first second reciprocal True
        by (simp add: swipe_run_4 post_swipe_right insert_match_fresh [OF absent])
    qed
  qed
qed

text \<open>
  Four steps are enough for every request, and a task run alone ends where the handler
  does.
\<close>

lemma swipe_run_is_post_swipe:
  "\<exists>sts. swipe_run 4 db (Received req) =
     (sts, fst (post_swipe db req), Finished (snd (post_swipe db req)))"
proof (cases "truthy (swiperId req) \<and> truthy (targetId req) \<and>
    direction req \<in> {Some ''left'', Some ''right''}")
  case False
  then show ?thesis by (auto simp: swipe_run_invalid post_swipe_invalid)
next
  case True
  then obtain a b d where f: "swiperId req = Some a" "targetId req = Some b"
    "direction req = Some d"
    by (cases "swiperId req"; cases "targetId req"; cases "direction req") auto
  show ?thesis
  proof (cases "strict_equals (Number a) (Number b)")
    case True
    with f post_swipe_self [of req a b db] show ?thesis by (auto simp: swipe_run_self)
  next
    case ne: False
    show ?thesis
    proof (cases "sql_int a = None \<or> sql_int b = None")
      case True
      with f \<open>truthy (swiperId req) \<and> truthy (targetId req) \<and>
          direction req \<in> {Some ''left'', Some ''right''}\<close> ne
      show ?thesis
        by (auto simp: swipe_run_unreadable post_swipe_unreadable)
    next
      case False
      then obtain s t where st: "sql_int a = Some s" "sql_int b = Some t" by auto
      obtain x y where op: "orderPair a b = (x, y)" by (cases "orderPair a b")
      from f \<open>truthy (swiperId req) \<and> truthy (targetId req) \<and>
          direction req \<in> {Some ''left'', Some ''right''}\<close> ne st op
      show ?thesis
        by (cases x; cases y)
           (auto simp: swipe_run_4 post_swipe_def Let_def split: sum.splits)
    qed
  qed
qed

text \<open>
  Run alone on integer ids, the handler has five answers, and the 500 of a thrown
  statement is not among them: the lookup has just found no row of the pair when the
  insert is sent.
\<close>

lemma post_swipe_answers:
  assumes "swiperId req = None \<or> (\<exists>s. swiperId req = Some (JNum s))"
    and "targetId req = None \<or> (\<exists>t. targetId req = Some (JNum t))"
  shows "snd (post_swipe db req) \<in>
     {swipe_invalid, swipe_self, swipe_saved, swipe_existing_match,
      swipe_new_match (next_match_id db)}"
proof (cases "truthy (swiperId req) \<and> truthy (targetId req) \<and>
    direction req \<in> {Some ''left'', Some ''right''}")
  case False
  then show ?thesis by (auto simp: post_swipe_invalid)
next
  case True
  with assms obtain s t where f: "swiperId req = Some (JNum s)" "targetId req = Some (JNum t)"
    "s \<noteq> 0" "t \<noteq> 0"
    by auto
  show ?thesis
  proof (cases "s = t")
    case True
    with f post_swipe_self [of req "JNum s" "JNum t" db] show ?thesis by auto
  next
    case ne: False
    show ?thesis
    proof (cases "direction req = Some ''left''")
      case True
      with f ne show ?thesis by (simp add: post_swipe_left)
    next
      case False
      with True have d: "direction req = Some ''right''" by auto
      let ?db1 = "insert_swipe db s t ''right''"
      show ?thesis
      proof (cases "select_swipe db t s ''right'' \<noteq> [] \<and> select_match db (min s t) (max s t) = []")
        case False
        with f ne d show ?thesis by (auto simp: post_swipe_right Let_def)
      next
        case True
        then have absent: "select_match ?db1 (min s t) (max s t) = []" by simp
        from f ne d True show ?thesis
          by (simp add: post_swipe_right Let_def insert_match_fresh [OF absent])
      qed
    qed
  qed
qed

lemma swipe_answer_fields:
  "matched swipe_saved = Some False \<and> matchId_of swipe_saved = None \<and>
   matched (swipe_new_match i) = Some True \<and> matchId_of (swipe_new_match i) = Some i \<and>
   matched swipe_existing_match = Some True \<and> matchId_of swipe_existing_match = None"
  by (simp add: swipe_saved_def swipe_new_match_def swipe_existing_match_def)

lemma post_swipe_swipes:
  assumes "swiperId req = Some (JNum s)" "targetId req = Some (JNum t)" "direction req = Some d"
    and "s \<noteq> 0" "t \<noteq> 0" "s \<noteq> t" "d = ''left'' \<or> d = ''right''"
  shows "swipes (fst (post_swipe db req)) = swipes db @
     [\<lparr>swipe_id = next_swipe_id db, swiper_id = s, target_id = t, swipe_direction = d\<rparr>]"
proof (cases "d = ''left''")
  case True
  with assms show ?thesis by (simp add: post_swipe_left)
next
  case False
  with assms have d: "d = ''right''" by simp
  let ?db1 = "insert_swipe db s t ''right''"
  show ?thesis
  proof (cases "select_swipe db t s ''right'' \<noteq> [] \<and> select_match db (min s t) (max s t) = []")
    case False
    with assms d show ?thesis by (auto simp: post_swipe_right Let_def)
  next
    case True
    then have absent: "select_match ?db1 (min s t) (max s t) = []" by simp
    from assms d True show ?thesis
      by (simp add: post_swipe_right Let_def insert_match_fresh [OF absent])
  qed
qed

lemma userInMatch_iff:
  "userInMatch db m u \<longleftrightarrow>
     (\<exists>r \<in> set (matches db). match_row_id r = m \<and> (user1_id r = u \<or> user2_id r = u))"
  by (auto simp: userInMatch_def select_member_def filter_empty_conv)

lemma select_messages_sorted:
  "select_messages db m
     (sort_key out_sent_at (map project_message (filter (\<lambda>r. match_id r = m) (messages db))))"
  using sorted_sort_key [of out_sent_at
      "map project_message (filter (\<lambda>r. match_id r = m) (messages db))"]
  by (simp add: select_messages_def sorted_map)

lemma get_messages_member:
  assumes "qMatchId q = Some m" "qUserId q = Some u" "userInMatch db m u"
  shows "get_messages db q out \<longleftrightarrow>
     (\<exists>rows. out = (db, Response 200 (Rows rows)) \<and> select_messages db m rows)"
proof (cases out)
  case (Pair db1 r)
  show ?thesis
  proof (cases r)
    case (Response st bd)
    with Pair assms show ?thesis
      by (cases bd) (auto simp: get_messages_def)
  qed
qed

lemma get_messages_total: "\<exists>out. get_messages db q out"
proof (cases "qMatchId q")
  case None
  then show ?thesis by (auto simp: get_messages_def)
next
  case m: (Some m)
  show ?thesis
  proof (cases "qUserId q")
    case None
    then show ?thesis by (auto simp: get_messages_def)
  next
    case (Some u)
    show ?thesis
    proof (cases "userInMatch db m u")
      case False
      with m Some show ?thesis by (auto simp: get_messages_def)
    next
      case True
      from get_messages_member [OF m Some True] select_messages_sorted [of db m]
      show ?thesis by blast
    qed
  qed
qed

lemma get_messages_store: "get_messages db q (db1, r) \<Longrightarrow> db1 = db"
  by (cases "qMatchId q"; cases "qUserId q"; cases r)
     (auto simp: get_messages_def split: if_splits body.splits)

lemma get_messages_rows:
  assumes "get_messages db q (db1, Response st (Rows rows))"
  shows "st = 200 \<and> (\<exists>m u. qMatchId q = Some m \<and> qUserId q = Some u \<and> userInMatch db m u \<and>
           select_messages db m rows)"
  using assms
  by (cases "qMatchId q"; cases "qUserId q")
     (auto simp: get_messages_def messages_invalid_def no_access_def split: if_splits)

lemma db_first_eval:
  "post_swipe (empty_db False) (right_swipe 5 9) =
     (\<lparr>swipes = [\<lparr>swipe_id = 1, swiper_id = 5, target_id = 9, swipe_direction = ''right''\<rparr>],
       matches = [], messages = [], next_swipe_id = 2, next_match_id = 1,
       next_message_id = 1, unique_pair = False\<rparr>, swipe_saved)"
  by (simp add: post_swipe_def Let_def empty_db_def right_swipe_def insert_swipe_def
      select_swipe_def)

lemma db_first_is:
  "db_first =
     \<lparr>swipes = [\<lparr>swipe_id = 1, swiper_id = 5, target_id = 9, swipe_direction = ''right''\<rparr>],
       matches = [], messages = [], next_swipe_id = 2, next_match_id = 1,
       next_message_id = 1, unique_pair = False\<rparr>"
  by (simp add: db_first_def db_first_eval)

lemma db_matched_eval:
  "post_swipe db_first (right_swipe 9 5) =
     (\<lparr>swipes = [\<lparr>swipe_id = 1, swiper_id = 5, target_id = 9, swipe_direction = ''right''\<rparr>,
                  \<lparr>swipe_id = 2, swiper_id = 9, target_id = 5, swipe_direction = ''right''\<rparr>],
       matches = [\<lparr>match_row_id = 1, user1_id = 5, user2_id = 9\<rparr>],
       messages = [], next_swipe_id = 3, next_match_id = 2,
       next_message_id = 1, unique_pair = False\<rparr>, swipe_new_match 1)"
  by (simp add: db_first_is post_swipe_def Let_def right_swipe_def insert_swipe_def
      select_swipe_def select_match_def insert_match_def orderPair_def)

lemma db_matched_is:
  "db_matched =
     \<lparr>swipes = [\<lparr>swipe_id = 1, swiper_id = 5, target_id = 9, swipe_direction = ''right''\<rparr>,
                  \<lparr>swipe_id = 2, swiper_id = 9, target_id = 5, swipe_direction = ''right''\<rparr>],
       matches = [\<lparr>match_row_id = 1, user1_id = 5, user2_id = 9\<rparr>],
       messages = [], next_swipe_id = 3, next_match_id = 2,
       next_message_id = 1, unique_pair = False\<rparr>"
  by (simp add: db_matched_def db_matched_eval)

lemma db_again_eval:
  "post_swipe db_matched (right_swipe 5 9) =
     (\<lparr>swipes = [\<lparr>swipe_id = 1, swiper_id = 5, target_id = 9, swipe_direction = ''right''\<rparr>,
                  \<lparr>swipe_id = 2, swiper_id = 9, target_id = 5, swipe_direction = ''right''\<rparr>,
                  \<lparr>swipe_id = 3, swiper_id = 5, target_id = 9, swipe_direction = ''right''\<rparr>],
       matches = [\<lparr>match_row_id = 1, user1_id = 5, user2_id = 9\<rparr>],
       messages = [], next_swipe_id = 4, next_match_id = 2,
       next_message_id = 1, unique_pair = False\<rparr>, swipe_existing_match)"
  by (simp add: db_matched_is post_swipe_def Let_def right_swipe_def insert_swipe_def
      select_swipe_def select_match_def insert_match_def orderPair_def)

lemma db_again_reverse_eval:
  "post_swipe db_matched (right_swipe 9 5) =
     (\<lparr>swipes = [\<lparr>swipe_id = 1, swiper_id = 5, target_id = 9, swipe_direction = ''right''\<rparr>,
                  \<lparr>swipe_id = 2, swiper_id = 9, target_id = 5, swipe_direction = ''right''\<rparr>,
                  \<lparr>swipe_id = 3, swiper_id = 9, target_id = 5, swipe_direction = ''right''\<rparr>],
       matches = [\<lparr>match_row_id = 1, user1_id = 5, user2_id = 9\<rparr>],
       messages = [], next_swipe_id = 4, next_match_id = 2,
       next_message_id = 1, unique_pair = False\<rparr>, swipe_existing_match)"
  by (simp add: db_matched_is post_swipe_def Let_def right_swipe_def insert_swipe_def
      select_swipe_def select_match_def insert_match_def orderPair_def)

lemma racing_False_eval:
  "racing False =
     (\<lparr>swipes = [\<lparr>swipe_id = 1, swiper_id = 5, target_id = 9, swipe_direction = ''right''\<rparr>,
                  \<lparr>swipe_id = 2, swiper_id = 9, target_id = 5, swipe_direction = ''right''\<rparr>],
       matches = [\<lparr>match_row_id = 1, user1_id = 5, user2_id = 9\<rparr>,
                  \<lparr>match_row_id = 2, user1_id = 5, user2_id = 9\<rparr>],
       messages = [], next_swipe_id = 3, next_match_id = 3,
       next_message_id = 1, unique_pair = False\<rparr>,
      [Finished (swipe_new_match 1), Finished (swipe_new_match 2)])"
  by (simp add: racing_def flight_step_def empty_db_def right_swipe_def insert_swipe_def
      select_swipe_def select_match_def insert_match_def orderPair_def)

lemma racing_True_eval:
  "racing True =
     (\<lparr>swipes = [\<lparr>swipe_id = 1, swiper_id = 5, target_id = 9, swipe_direction = ''right''\<rparr>,
                  \<lparr>swipe_id = 2, swiper_id = 9, target_id = 5, swipe_direction = ''right''\<rparr>],
       matches = [\<lparr>match_row_id = 1, user1_id = 5, user2_id = 9\<rparr>],
       messages = [], next_swipe_id = 3, next_match_id = 2,
       next_message_id = 1, unique_pair = True\<rparr>,
      [Finished (swipe_new_match 1), Finished swipe_failed])"
  by (simp add: racing_def flight_step_def empty_db_def right_swipe_def insert_swipe_def
      select_swipe_def select_match_def insert_match_def orderPair_def)

lemma db_chat_is:
  "db_chat =
     \<lparr>swipes = [\<lparr>swipe_id = 1, swiper_id = 5, target_id = 9, swipe_direction = ''right''\<rparr>,
                 \<lparr>swipe_id = 2, swiper_id = 9, target_id = 5, swipe_direction = ''right''\<rparr>],
       matches = [\<lparr>match_row_id = 1, user1_id = 5, user2_id = 9\<rparr>],
       messages = [\<lparr>message_id = 1, match_id = 1, sender_id = 5, content = ''hi'', sent_at = 100\<rparr>,
                   \<lparr>message_id = 2, match_id = 1, sender_id = 9, content = ''hello'', sent_at = 100\<rparr>],
       next_swipe_id = 3, next_match_id = 2, next_message_id = 3, unique_pair = False\<rparr>"
  by (simp add: db_chat_def db_matched_is post_messages_def userInMatch_def select_member_def
      insert_message_def)

text \<open>
  In any sequential execution at most one match row exists per canonical pair. Every
  store reached from the empty one by requests served one after the other holds one
  match per pair, and each writing endpoint keeps that. Once a row of the pair of
  \<open>s\<close> and \<open>t\<close> is there, a swipe between the two, in either direction, leaves
  \<open>matches\<close> as it is; when it is a right swipe and the other has swiped right
  before, the handler's lookup finds that row and the request is answered as already
  matched.
\<close>

lemma one_match_per_pair_sequential:
  "one_match_per_pair (serve_all (empty_db u) rs) \<and>
   (one_match_per_pair db \<longrightarrow>
      one_match_per_pair (fst (post_swipe db req)) \<and>
      one_match_per_pair (fst (post_messages now db mreq)) \<and>
      one_match_per_pair (fst (admin_delete_user db v)) \<and>
      (\<forall>r s t d. r \<in> set (matches db) \<and> {user1_id r, user2_id r} = {s, t} \<and>
          swiperId req = Some (JNum s) \<and> targetId req = Some (JNum t) \<and>
          direction req = Some d \<longrightarrow>
          matches (fst (post_swipe db req)) = matches db \<and>
          (s \<noteq> 0 \<and> t \<noteq> 0 \<and> d = ''right'' \<and> select_swipe db t s ''right'' \<noteq> [] \<longrightarrow>
             select_match (insert_swipe db s t d) (min s t) (max s t) = [match_row_id r] \<and>
             snd (post_swipe db req) = swipe_existing_match)))"
proof (intro conjI impI allI)
  have "one_match_per_pair (empty_db u)"
    by (simp add: one_match_per_pair_def empty_db_def)
  then show "one_match_per_pair (serve_all (empty_db u) rs)"
    by (rule serve_all_preserves)
next
  assume "one_match_per_pair db"
  then show "one_match_per_pair (fst (post_swipe db req))" by (rule post_swipe_preserves)
next
  assume "one_match_per_pair db"
  then show "one_match_per_pair (fst (post_messages now db mreq))"
    by (rule post_messages_preserves)
next
  assume "one_match_per_pair db"
  then show "one_match_per_pair (fst (admin_delete_user db v))"
    by (rule admin_delete_preserves)
next
  fix r s t d
  assume inv: "one_match_per_pair db"
    and h: "r \<in> set (matches db) \<and> {user1_id r, user2_id r} = {s, t} \<and>
          swiperId req = Some (JNum s) \<and> targetId req = Some (JNum t) \<and>
          direction req = Some d"
  from existing_row_found [OF inv, of r s t] h
  have ne: "s \<noteq> t"
    and found: "select_match db (min s t) (max s t) = [match_row_id r]"
    by simp_all
  consider "\<not> truthy (swiperId req) \<or> \<not> truthy (targetId req) \<or>
      direction req \<notin> {Some ''left'', Some ''right''}"
    | "s \<noteq> 0" "t \<noteq> 0" "d = ''left''" | "s \<noteq> 0" "t \<noteq> 0" "d = ''right''"
    using h by auto
  then show "matches (fst (post_swipe db req)) = matches db"
  proof cases
    case 1
    then show ?thesis by (simp add: post_swipe_invalid)
  next
    case 2
    with h ne show ?thesis by (simp add: post_swipe_left)
  next
    case 3
    with h ne found show ?thesis by (simp add: post_swipe_right Let_def)
  qed
next
  fix r s t d
  assume inv: "one_match_per_pair db"
    and h: "r \<in> set (matches db) \<and> {user1_id r, user2_id r} = {s, t} \<and>
          swiperId req = Some (JNum s) \<and> targetId req = Some (JNum t) \<and>
          direction req = Some d"
    and g: "s \<noteq> 0 \<and> t \<noteq> 0 \<and> d = ''right'' \<and> select_swipe db t s ''right'' \<noteq> []"
  from existing_row_found [OF inv, of r s t] h
  have ne: "s \<noteq> t"
    and found: "select_match db (min s t) (max s t) = [match_row_id r]"
    by simp_all
  from found show "select_match (insert_swipe db s t d) (min s t) (max s t) = [match_row_id r]"
    by simp
  from h g ne found show "snd (post_swipe db req) = swipe_existing_match"
    by (simp add: post_swipe_right Let_def)
qed

section \<open>The claims\<close>

text \<open>
  C1. Match creation in \<open>POST /swipe\<close> is claimed to be one atomic find-or-create, so
  that concurrent reciprocal right swipes leave at most one match row of the pair, one
  request answered as the new match and the others as already matched. The handler
  sends the lookup and the insert as two statements. With the statements of the two
  reciprocal swipes of users 5 and 9 reaching the store in turn, both lookups come back
  empty and both requests insert: without a uniqueness constraint the pair has two match
  rows and both requests are answered as a new match, with ids 1 and 2; with the
  constraint the second insert throws and its request is answered 500.
\<close>

theorem racing_swipes_both_insert:
  "snd (racing False) = [Finished (swipe_new_match 1), Finished (swipe_new_match 2)] \<and>
   pair_rows (fst (racing False)) 5 9 =
     [\<lparr>match_row_id = 1, user1_id = 5, user2_id = 9\<rparr>,
      \<lparr>match_row_id = 2, user1_id = 5, user2_id = 9\<rparr>] \<and>
   \<not> one_match_per_pair (fst (racing False)) \<and>
   snd (racing True) = [Finished (swipe_new_match 1), Finished swipe_failed] \<and>
   status swipe_failed = 500"
  by (simp add: racing_False_eval racing_True_eval pair_rows_def orderPair_def
      one_match_per_pair_def swipe_failed_def)

theorem racing_swipes_both_insert_witness:
  "length (pair_rows (fst (racing False)) 5 9) = 2"
  using racing_swipes_both_insert by simp

text \<open>
  C2. The 200 response of \<open>POST /swipe\<close> is claimed to carry \<open>matchId\<close> whenever
  \<open>matched\<close> is true. User 5 swipes right on 9 (not matched), 9 swipes right on 5
  (matched, \<open>matchId\<close> 1), and 5 swipes right on 9 again: the answer has
  \<open>matched: true\<close> and no \<open>matchId\<close>, although match 1 is in the store.
\<close>

theorem already_matched_has_no_matchId:
  "snd (post_swipe (empty_db False) (right_swipe 5 9)) = swipe_saved \<and>
   snd (post_swipe db_first (right_swipe 9 5)) = swipe_new_match 1 \<and>
   map match_row_id (matches db_matched) = [1] \<and>
   snd (post_swipe db_matched (right_swipe 5 9)) = swipe_existing_match \<and>
   matched swipe_existing_match = Some True \<and>
   matchId_of swipe_existing_match = None \<and>
   matchId_of (swipe_new_match 1) = Some 1"
proof -
  have first: "snd (post_swipe (empty_db False) (right_swipe 5 9)) = swipe_saved"
    by (simp add: db_first_eval)
  have second: "snd (post_swipe db_first (right_swipe 9 5)) = swipe_new_match 1"
    by (simp add: db_matched_eval)
  have row: "map match_row_id (matches db_matched) = [1]"
    by (simp add: db_matched_is)
  have third: "snd (post_swipe db_matched (right_swipe 5 9)) = swipe_existing_match"
    by (simp add: db_again_eval)
  have fields: "matched swipe_existing_match = Some True \<and>
      matchId_of swipe_existing_match = None \<and> matchId_of (swipe_new_match 1) = Some 1"
    by (simp add: swipe_existing_match_def swipe_new_match_def)
  from first second row third fields show ?thesis by blast
qed

theorem already_matched_has_no_matchId_witness:
  "matchId_of (snd (post_swipe db_matched (right_swipe 5 9))) = None"
  using already_matched_has_no_matchId by simp

text \<open>
  C3. Once a match of a pair exists, every later swipe of the pair that finds the
  reciprocal swipe is claimed to return the existing match and to insert no second row.
  With match 1 of users 5 and 9 in the store and both right swipes recorded, a further
  right swipe in either direction finds the reciprocal swipe, leaves \<open>matches\<close> as it
  is, one row per pair, and is answered \<open>matched: true\<close>; but the answer does not
  return the match: it has no \<open>matchId\<close>, while the row it found has id 1.
\<close>

theorem existing_match_not_returned:
  "one_match_per_pair db_matched \<and>
   matches db_matched = [\<lparr>match_row_id = 1, user1_id = 5, user2_id = 9\<rparr>] \<and>
   select_swipe db_matched 9 5 ''right'' \<noteq> [] \<and>
   select_swipe db_matched 5 9 ''right'' \<noteq> [] \<and>
   select_match db_matched 5 9 = [1] \<and>
   matches (fst (post_swipe db_matched (right_swipe 5 9))) = matches db_matched \<and>
   matches (fst (post_swipe db_matched (right_swipe 9 5))) = matches db_matched \<and>
   one_match_per_pair (fst (post_swipe db_matched (right_swipe 5 9))) \<and>
   one_match_per_pair (fst (post_swipe db_matched (right_swipe 9 5))) \<and>
   matched (snd (post_swipe db_matched (right_swipe 5 9))) = Some True \<and>
   matched (snd (post_swipe db_matched (right_swipe 9 5))) = Some True \<and>
   matchId_of (snd (post_swipe db_matched (right_swipe 5 9))) = None \<and>
   matchId_of (snd (post_swipe db_matched (right_swipe 9 5))) = None"
proof -
  have "serve_all (empty_db False) [Swipe (right_swipe 5 9), Swipe (right_swipe 9 5)] = db_matched"
    by (simp add: db_matched_def db_first_def)
  with serve_all_preserves [of "empty_db False" "[Swipe (right_swipe 5 9), Swipe (right_swipe 9 5)]"]
  have inv: "one_match_per_pair db_matched"
    by (simp add: one_match_per_pair_def empty_db_def)
  have rows: "matches db_matched = [\<lparr>match_row_id = 1, user1_id = 5, user2_id = 9\<rparr>]"
    by (simp add: db_matched_is)
  have swiped: "select_swipe db_matched 9 5 ''right'' \<noteq> [] \<and>
      select_swipe db_matched 5 9 ''right'' \<noteq> [] \<and> select_match db_matched 5 9 = [1]"
    by (simp add: db_matched_is select_swipe_def select_match_def)
  have again: "matches (fst (post_swipe db_matched (right_swipe 5 9))) = matches db_matched \<and>
      snd (post_swipe db_matched (right_swipe 5 9)) = swipe_existing_match"
    by (simp add: db_again_eval rows)
  have reverse: "matches (fst (post_swipe db_matched (right_swipe 9 5))) = matches db_matched \<and>
      snd (post_swipe db_matched (right_swipe 9 5)) = swipe_existing_match"
    by (simp add: db_again_reverse_eval rows)
  have kept: "one_match_per_pair (fst (post_swipe db_matched (right_swipe 5 9))) \<and>
      one_match_per_pair (fst (post_swipe db_matched (right_swipe 9 5)))"
    using inv by (simp add: post_swipe_preserves)
  have fields: "matched swipe_existing_match = Some True \<and> matchId_of swipe_existing_match = None"
    by (simp add: swipe_existing_match_def)
  from inv rows swiped again reverse kept fields show ?thesis by simp
qed

theorem existing_match_not_returned_witness:
  "matchId_of (snd (post_swipe db_matched (right_swipe 9 5))) \<noteq> Some 1 \<and>
   length (matches (fst (post_swipe db_matched (right_swipe 9 5)))) = 1"
  using existing_match_not_returned by simp

text \<open>
  C4. \<open>orderPair\<close> does not depend on the order of its arguments: for two ids that
  \<open>Number()\<close> reads as different numbers, both orders give the same pair, whose
  first component is the smaller number and whose second is the larger.
\<close>

theorem orderPair_canonical:
  "Number a = Some x \<and> Number b = Some y \<and> x \<noteq> y \<Longrightarrow>
     orderPair a b = orderPair b a \<and>
     fst (orderPair a b) = Some (min x y) \<and> snd (orderPair a b) = Some (max x y) \<and>
     min x y < max x y"
  by (auto simp: orderPair_def)

theorem orderPair_canonical_witness:
  "orderPair (JNum 9) (JNum 5) = orderPair (JNum 5) (JNum 9) \<and>
   fst (orderPair (JNum 5) (JNum 9)) = Some 5 \<and> snd (orderPair (JNum 5) (JNum 9)) = Some 9 \<and>
   fst (orderPair (JStr ''10'' (Some 10) (Some 10)) (JNum 9)) = Some 9 \<and>
   snd (orderPair (JStr ''10'' (Some 10) (Some 10)) (JNum 9)) = Some 10"
proof -
  have "Number (JNum 9) = Some 9 \<and> Number (JNum 5) = Some 5 \<and> (9::int) \<noteq> 5" by simp
  from orderPair_canonical [OF this]
  have numbers: "orderPair (JNum 9) (JNum 5) = orderPair (JNum 5) (JNum 9) \<and>
      fst (orderPair (JNum 5) (JNum 9)) = Some 5 \<and> snd (orderPair (JNum 5) (JNum 9)) = Some 9"
    by auto
  have "Number (JStr ''10'' (Some 10) (Some 10)) = Some 10 \<and> Number (JNum 9) = Some 9 \<and>
      (10::int) \<noteq> 9" by simp
  from orderPair_canonical [OF this]
  have "fst (orderPair (JStr ''10'' (Some 10) (Some 10)) (JNum 9)) = Some 9 \<and>
      snd (orderPair (JStr ''10'' (Some 10) (Some 10)) (JNum 9)) = Some 10"
    by auto
  with numbers show ?thesis by blast
qed




text \<open>
  C6. A left swipe never produces a match: a valid request with direction \<open>left\<close> is
  answered \<open>matched: false\<close> whatever the store holds, the only statement the
  handler sends is the insert of the swipe event (no lookup of a reciprocal swipe), and
  \<open>matches\<close> is left as it was. For every request with direction \<open>left\<close>, whatever
  its ids are, \<open>matches\<close> is left as it was, the answer is not \<open>matched: true\<close>,
  and the handler sends no statement but that insert.
\<close>

theorem left_swipe_never_matches:
  "(swiperId req = Some (JNum s) \<and> targetId req = Some (JNum t) \<and>
    direction req = Some ''left'' \<and> s \<noteq> 0 \<and> t \<noteq> 0 \<and> s \<noteq> t \<longrightarrow>
      post_swipe db req = (insert_swipe db s t ''left'', swipe_saved) \<and>
      status swipe_saved = 200 \<and> matched swipe_saved = Some False \<and>
      matchId_of swipe_saved = None \<and>
      matches (fst (post_swipe db req)) = matches db \<and>
      swipe_run 4 db (Received req) =
        ([InsertSwipe], insert_swipe db s t ''left'', Finished swipe_saved)) \<and>
   (direction req = Some ''left'' \<longrightarrow>
      matches (fst (post_swipe db req)) = matches db \<and>
      matched (snd (post_swipe db req)) \<noteq> Some True \<and>
      (\<exists>sts. swipe_run 4 db (Received req) =
               (sts, fst (post_swipe db req), Finished (snd (post_swipe db req))) \<and>
             set sts \<subseteq> {InsertSwipe}))"
proof (intro conjI impI)
  assume "swiperId req = Some (JNum s) \<and> targetId req = Some (JNum t) \<and>
    direction req = Some ''left'' \<and> s \<noteq> 0 \<and> t \<noteq> 0 \<and> s \<noteq> t"
  then show "post_swipe db req = (insert_swipe db s t ''left'', swipe_saved)"
    "status swipe_saved = 200" "matched swipe_saved = Some False"
    "matchId_of swipe_saved = None"
    "matches (fst (post_swipe db req)) = matches db"
    "swipe_run 4 db (Received req) =
        ([InsertSwipe], insert_swipe db s t ''left'', Finished swipe_saved)"
    by (simp_all add: post_swipe_left swipe_run_left swipe_saved_def)
next
  assume left: "direction req = Some ''left''"
  have "(post_swipe db req = (db, swipe_invalid) \<and>
         swipe_run 4 db (Received req) = ([], db, Finished swipe_invalid)) \<or>
        (post_swipe db req = (db, swipe_self) \<and>
         swipe_run 4 db (Received req) = ([], db, Finished swipe_self)) \<or>
        (post_swipe db req = (db, swipe_failed) \<and>
         swipe_run 4 db (Received req) = ([InsertSwipe], db, Finished swipe_failed)) \<or>
        (\<exists>s t. post_swipe db req = (insert_swipe db s t ''left'', swipe_saved) \<and>
           swipe_run 4 db (Received req) =
             ([InsertSwipe], insert_swipe db s t ''left'', Finished swipe_saved))"
  proof (cases "truthy (swiperId req) \<and> truthy (targetId req)")
    case False
    then show ?thesis by (auto simp: post_swipe_invalid swipe_run_invalid)
  next
    case True
    then obtain a b where f: "swiperId req = Some a" "targetId req = Some b"
      by (cases "swiperId req"; cases "targetId req") auto
    show ?thesis
    proof (cases "strict_equals (Number a) (Number b)")
      case True
      with f left have "post_swipe db req = (db, swipe_self)"
        using \<open>truthy (swiperId req) \<and> truthy (targetId req)\<close> by (simp add: post_swipe_def)
      with swipe_run_self [OF f True, of db] show ?thesis by simp
    next
      case ne: False
      show ?thesis
      proof (cases "sql_int a = None \<or> sql_int b = None")
        case True
        with f left ne \<open>truthy (swiperId req) \<and> truthy (targetId req)\<close>
        show ?thesis by (auto simp: post_swipe_unreadable swipe_run_unreadable)
      next
        case False
        then obtain s t where "sql_int a = Some s" "sql_int b = Some t" by auto
        with f left ne \<open>truthy (swiperId req) \<and> truthy (targetId req)\<close>
        show ?thesis by (auto simp: post_swipe_left_any swipe_run_left_any)
      qed
    qed
  qed
  then show "matches (fst (post_swipe db req)) = matches db"
    "matched (snd (post_swipe db req)) \<noteq> Some True"
    "\<exists>sts. swipe_run 4 db (Received req) =
               (sts, fst (post_swipe db req), Finished (snd (post_swipe db req))) \<and>
             set sts \<subseteq> {InsertSwipe}"
    by (auto simp: swipe_invalid_def swipe_self_def swipe_failed_def swipe_saved_def)
qed

theorem left_swipe_never_matches_witness:
  "snd (post_swipe db_first (left_swipe 9 5)) = swipe_saved \<and>
   matches (fst (post_swipe db_first (left_swipe 9 5))) = [] \<and>
   fst (swipe_run 4 db_first (Received (left_swipe 9 5))) = [InsertSwipe] \<and>
   select_swipe db_first 5 9 ''right'' = [1]"
proof -
  have "swiperId (left_swipe 9 5) = Some (JNum 9) \<and> targetId (left_swipe 9 5) = Some (JNum 5) \<and>
      direction (left_swipe 9 5) = Some ''left'' \<and> (9::int) \<noteq> 0 \<and> (5::int) \<noteq> 0 \<and> (9::int) \<noteq> 5"
    by (simp add: left_swipe_def)
  with left_swipe_never_matches [of "left_swipe 9 5" 9 5 db_first]
  have "post_swipe db_first (left_swipe 9 5) = (insert_swipe db_first 9 5 ''left'', swipe_saved) \<and>
      swipe_run 4 db_first (Received (left_swipe 9 5)) =
        ([InsertSwipe], insert_swipe db_first 9 5 ''left'', Finished swipe_saved)"
    by blast
  then show ?thesis by (simp add: db_first_is select_swipe_def)
qed

text \<open>
  C7. \<open>userInMatch\<close> is true exactly when \<open>matches\<close> has a row with the given id
  whose \<open>user1_id\<close> or \<open>user2_id\<close> is the user. When it is false for the ids of a
  request that names its fields, \<open>GET /messages\<close> has one possible outcome and
  \<open>POST /messages\<close> has the same: the answer with status 403 and the store as it was;
  no answer of either endpoint has status 404.
\<close>

theorem chat_guard_exact:
  "(userInMatch db m u \<longleftrightarrow>
      (\<exists>r \<in> set (matches db). match_row_id r = m \<and> (user1_id r = u \<or> user2_id r = u))) \<and>
   (\<not> userInMatch db m u \<longrightarrow>
      (qMatchId q = Some m \<and> qUserId q = Some u \<longrightarrow>
         (\<forall>out. get_messages db q out \<longleftrightarrow> out = (db, no_access))) \<and>
      (matchId req = Some m \<and> senderId req = Some u \<and> m \<noteq> 0 \<and> u \<noteq> 0 \<and>
       truthy_str (msgContent req) \<longrightarrow>
         post_messages now db req = (db, no_access))) \<and>
   status no_access = 403 \<and>
   (\<forall>out. get_messages db q out \<longrightarrow> status (snd out) \<noteq> 404) \<and>
   status (snd (post_messages now db req)) \<noteq> 404"
proof (intro conjI impI allI)
  show "userInMatch db m u \<longleftrightarrow>
      (\<exists>r \<in> set (matches db). match_row_id r = m \<and> (user1_id r = u \<or> user2_id r = u))"
    by (rule userInMatch_iff)
next
  fix out
  assume "\<not> userInMatch db m u" "qMatchId q = Some m \<and> qUserId q = Some u"
  then show "get_messages db q out \<longleftrightarrow> out = (db, no_access)"
    by (simp add: get_messages_def)
next
  assume "\<not> userInMatch db m u"
    "matchId req = Some m \<and> senderId req = Some u \<and> m \<noteq> 0 \<and> u \<noteq> 0 \<and>
       truthy_str (msgContent req)"
  then show "post_messages now db req = (db, no_access)"
    by (cases "msgContent req") (simp_all add: post_messages_def)
next
  show "status no_access = 403" by (simp add: no_access_def)
next
  fix out
  assume a: "get_messages db q out"
  obtain db1 r where out: "out = (db1, r)" by (cases out)
  from a show "status (snd out) \<noteq> 404"
    unfolding out
    by (cases "qMatchId q"; cases "qUserId q"; cases r)
       (auto simp: get_messages_def messages_invalid_def no_access_def
             split: if_splits body.splits)
next
  show "status (snd (post_messages now db req)) \<noteq> 404"
    by (cases "matchId req"; cases "senderId req"; cases "msgContent req")
       (simp_all add: post_messages_def message_invalid_def no_access_def insert_message_def)
qed

theorem chat_guard_exact_witness:
  "userInMatch db_matched 1 5 \<and> userInMatch db_matched 1 9 \<and>
   \<not> userInMatch db_matched 1 7 \<and> \<not> userInMatch db_matched 2 5 \<and>
   get_messages db_matched \<lparr>qMatchId = Some 1, qUserId = Some 7\<rparr> (db_matched, no_access) \<and>
   post_messages 100 db_matched
     \<lparr>matchId = Some 1, senderId = Some 7, msgContent = Some ''hi''\<rparr> = (db_matched, no_access)"
proof -
  have rows: "matches db_matched = [\<lparr>match_row_id = 1, user1_id = 5, user2_id = 9\<rparr>]"
    by (simp add: db_matched_is)
  note c7 = chat_guard_exact [where db = db_matched
      and q = "\<lparr>qMatchId = Some 1, qUserId = Some 7\<rparr>"
      and req = "\<lparr>matchId = Some 1, senderId = Some 7, msgContent = Some ''hi''\<rparr>"
      and now = 100]
  have five: "userInMatch db_matched 1 5"
    using c7 [where m = 1 and u = 5] rows by simp
  have nine: "userInMatch db_matched 1 9"
    using c7 [where m = 1 and u = 9] rows by simp
  have other: "\<not> userInMatch db_matched 2 5"
    using c7 [where m = 2 and u = 5] rows by simp
  have seven: "\<not> userInMatch db_matched 1 7"
    using c7 [where m = 1 and u = 7] rows by simp
  with c7 [where m = 1 and u = 7]
  have "get_messages db_matched \<lparr>qMatchId = Some 1, qUserId = Some 7\<rparr> (db_matched, no_access)"
    and "post_messages 100 db_matched
       \<lparr>matchId = Some 1, senderId = Some 7, msgContent = Some ''hi''\<rparr> = (db_matched, no_access)"
    by simp_all
  with five nine other seven show ?thesis by blast
qed

text \<open>
  C8. \<open>GET /messages\<close> is claimed to return the messages of a match ascending in
  \<open>sentAt\<close> and, among equal \<open>sentAt\<close>, in \<open>id\<close>. The statement orders by
  \<open>sent_at\<close> alone. After users 5 and 9 have both written within one clock reading,
  the answer with message 2 before message 1 is one the handler may give, and it is not
  in the claimed order.
\<close>

theorem equal_sent_at_any_order:
  "get_messages db_chat \<lparr>qMatchId = Some 1, qUserId = Some 5\<rparr>
     (db_chat, Response 200 (Rows [(2, 9, ''hello'', 100), (1, 5, ''hi'', 100)])) \<and>
   \<not> spec_message_order [(2, 9, ''hello'', 100), (1, 5, ''hi'', 100)]"
  by (simp add: get_messages_def userInMatch_def select_member_def select_messages_def
      db_chat_is project_message_def out_sent_at_def out_id_def spec_message_order_def)

text \<open>
  C8, as the code has it. The handler always has an outcome, and every outcome leaves
  the store as it was, so the same request asked again has the same outcomes: the read
  keeps no cursor. To a participant of the match the handler answers, and answers only,
  with status 200 and a list of rows; the list holds exactly the messages of the match,
  each once, in an order that is ascending in \<open>sent_at\<close>. The order among rows of
  equal \<open>sent_at\<close> is left open. No one else is answered with rows.
\<close>

theorem messages_ascending_in_sent_at:
  "(\<exists>out. get_messages db q out) \<and>
   (\<forall>db1 r. get_messages db q (db1, r) \<longrightarrow> db1 = db \<and> get_messages db1 q = get_messages db q) \<and>
   (qMatchId q = Some m \<and> qUserId q = Some u \<and> userInMatch db m u \<longrightarrow>
      (\<exists>rows. get_messages db q (db, Response 200 (Rows rows))) \<and>
      (\<forall>db1 r. get_messages db q (db1, r) \<longrightarrow>
         (\<exists>rows. r = Response 200 (Rows rows) \<and>
            sorted_wrt (\<lambda>a b. out_sent_at a \<le> out_sent_at b) rows \<and>
            mset rows =
              mset (map project_message (filter (\<lambda>x. match_id x = m) (messages db)))))) \<and>
   (\<forall>db1 st rows. get_messages db q (db1, Response st (Rows rows)) \<longrightarrow>
      st = 200 \<and>
      sorted_wrt (\<lambda>a b. out_sent_at a \<le> out_sent_at b) rows \<and>
      (\<exists>m u. qMatchId q = Some m \<and> qUserId q = Some u \<and> userInMatch db m u \<and>
         mset rows = mset (map project_message (filter (\<lambda>x. match_id x = m) (messages db)))))"
proof (intro conjI allI impI)
  show "\<exists>out. get_messages db q out" by (rule get_messages_total)
next
  fix db1 r
  assume "get_messages db q (db1, r)"
  then show "db1 = db" by (rule get_messages_store)
next
  fix db1 r
  assume "get_messages db q (db1, r)"
  then have "db1 = db" by (rule get_messages_store)
  then show "get_messages db1 q = get_messages db q" by simp
next
  assume p: "qMatchId q = Some m \<and> qUserId q = Some u \<and> userInMatch db m u"
  then have "get_messages db q (db, Response 200 (Rows
      (sort_key out_sent_at (map project_message (filter (\<lambda>r. match_id r = m) (messages db))))))"
    using select_messages_sorted [of db m] by (simp add: get_messages_member)
  then show "\<exists>rows. get_messages db q (db, Response 200 (Rows rows))" ..
next
  fix db1 r
  assume p: "qMatchId q = Some m \<and> qUserId q = Some u \<and> userInMatch db m u"
    and a: "get_messages db q (db1, r)"
  from p a obtain rows where "r = Response 200 (Rows rows)" "select_messages db m rows"
    by (auto simp: get_messages_member)
  then show "\<exists>rows. r = Response 200 (Rows rows) \<and>
            sorted_wrt (\<lambda>a b. out_sent_at a \<le> out_sent_at b) rows \<and>
            mset rows =
              mset (map project_message (filter (\<lambda>x. match_id x = m) (messages db)))"
    by (auto simp: select_messages_def)
next
  fix db1 st rows
  assume "get_messages db q (db1, Response st (Rows rows))"
  from get_messages_rows [OF this] show "st = 200" by simp
next
  fix db1 st rows
  assume "get_messages db q (db1, Response st (Rows rows))"
  from get_messages_rows [OF this]
  show "sorted_wrt (\<lambda>a b. out_sent_at a \<le> out_sent_at b) rows"
    by (auto simp: select_messages_def)
next
  fix db1 st rows
  assume "get_messages db q (db1, Response st (Rows rows))"
  from get_messages_rows [OF this]
  show "\<exists>m u. qMatchId q = Some m \<and> qUserId q = Some u \<and> userInMatch db m u \<and>
         mset rows = mset (map project_message (filter (\<lambda>x. match_id x = m) (messages db)))"
    by (auto simp: select_messages_def)
qed

theorem messages_ascending_in_sent_at_witness:
  "userInMatch db_chat 1 9 \<and>
   (\<exists>rows. get_messages db_chat \<lparr>qMatchId = Some 1, qUserId = Some 9\<rparr>
      (db_chat, Response 200 (Rows rows))) \<and>
   get_messages db_chat \<lparr>qMatchId = Some 1, qUserId = Some 9\<rparr>
     (db_chat, Response 200 (Rows [(1, 5, ''hi'', 100), (2, 9, ''hello'', 100)])) \<and>
   sorted_wrt (\<lambda>a b. out_sent_at a \<le> out_sent_at b) [(1, 5, ''hi'', 100), (2, 9, ''hello'', 100)] \<and>
   mset [(1, 5, ''hi'', 100), (2, 9, ''hello'', 100)] =
     mset (map project_message (filter (\<lambda>r. match_id r = 1) (messages db_chat)))"
proof -
  let ?q = "\<lparr>qMatchId = Some 1, qUserId = Some 9\<rparr>"
  let ?rows = "[(1, 5, ''hi'', 100), (2, 9, ''hello'', 100)] :: message_out list"
  note c8 = messages_ascending_in_sent_at [of db_chat ?q 1 9]
  have member: "userInMatch db_chat 1 9"
    by (simp add: userInMatch_def select_member_def db_chat_is)
  have answer: "get_messages db_chat ?q (db_chat, Response 200 (Rows ?rows))"
    by (simp add: get_messages_def userInMatch_def select_member_def select_messages_def
        db_chat_is project_message_def out_sent_at_def)
  from c8 member have some: "\<exists>rows. get_messages db_chat ?q (db_chat, Response 200 (Rows rows))"
    by simp
  from c8 member
  have "\<forall>db1 r. get_messages db_chat ?q (db1, r) \<longrightarrow>
         (\<exists>rows. r = Response 200 (Rows rows) \<and>
            sorted_wrt (\<lambda>a b. out_sent_at a \<le> out_sent_at b) rows \<and>
            mset rows =
              mset (map project_message (filter (\<lambda>x. match_id x = 1) (messages db_chat))))"
    by simp
  from this [rule_format, OF answer] member some answer show ?thesis by auto
qed

text \<open>
  C9. A valid request (both ids named and not 0, not a self-swipe, direction \<open>left\<close>
  or \<open>right\<close>) appends exactly one event to \<open>swipes\<close>: the rows that were there
  stay as they were, in their order, the new row follows them, also when an equal event
  is there already. The insert is the first statement the handler sends and the only
  insert into \<open>swipes\<close>, so it comes before the lookup of a reciprocal swipe.
\<close>

theorem valid_swipe_appends_one_event:
  "swiperId req = Some (JNum s) \<and> targetId req = Some (JNum t) \<and> direction req = Some d \<and>
     s \<noteq> 0 \<and> t \<noteq> 0 \<and> s \<noteq> t \<and> (d = ''left'' \<or> d = ''right'') \<Longrightarrow>
   swipes (fst (post_swipe db req)) = swipes db @
     [\<lparr>swipe_id = next_swipe_id db, swiper_id = s, target_id = t, swipe_direction = d\<rparr>] \<and>
   (\<exists>sts. swipe_run 4 db (Received req) =
            (InsertSwipe # sts, fst (post_swipe db req), Finished (snd (post_swipe db req))) \<and>
          InsertSwipe \<notin> set sts)"
proof -
  assume v: "swiperId req = Some (JNum s) \<and> targetId req = Some (JNum t) \<and>
     direction req = Some d \<and>
     s \<noteq> 0 \<and> t \<noteq> 0 \<and> s \<noteq> t \<and> (d = ''left'' \<or> d = ''right'')"
  then have rows: "swipes (fst (post_swipe db req)) = swipes db @
     [\<lparr>swipe_id = next_swipe_id db, swiper_id = s, target_id = t, swipe_direction = d\<rparr>]"
    by (intro post_swipe_swipes) simp_all
  have "\<exists>sts. swipe_run 4 db (Received req) =
            (InsertSwipe # sts, fst (post_swipe db req), Finished (snd (post_swipe db req))) \<and>
          InsertSwipe \<notin> set sts"
  proof (cases "d = ''left''")
    case True
    with v show ?thesis by (simp add: swipe_run_left post_swipe_left)
  next
    case False
    with v show ?thesis by (intro swipe_run_right [of req s t]) simp_all
  qed
  with rows show ?thesis by simp
qed

theorem valid_swipe_appends_one_event_witness:
  "swipes (fst (post_swipe db_matched (right_swipe 5 9))) =
     [\<lparr>swipe_id = 1, swiper_id = 5, target_id = 9, swipe_direction = ''right''\<rparr>,
      \<lparr>swipe_id = 2, swiper_id = 9, target_id = 5, swipe_direction = ''right''\<rparr>,
      \<lparr>swipe_id = 3, swiper_id = 5, target_id = 9, swipe_direction = ''right''\<rparr>]"
proof -
  have "swiperId (right_swipe 5 9) = Some (JNum 5) \<and> targetId (right_swipe 5 9) = Some (JNum 9) \<and>
      direction (right_swipe 5 9) = Some ''right'' \<and> (5::int) \<noteq> 0 \<and> (9::int) \<noteq> 0 \<and>
      (5::int) \<noteq> 9 \<and> (''right'' = ''left'' \<or> ''right'' = ''right'')"
    by (simp add: right_swipe_def)
  from valid_swipe_appends_one_event [OF this, of db_matched]
  show ?thesis by (simp add: db_matched_is)
qed

text \<open>
  C10. \<open>POST /swipe\<close> tests its fields by truthiness: a \<open>swiperId\<close> or
  \<open>targetId\<close> of 0 is answered as a missing one is, with the 400 of the field check
  and the store as it was; a direction other than the strings \<open>left\<close> and
  \<open>right\<close>, such as \<open>Right\<close> or \<open>LEFT\<close>, is answered the same. That answer is
  given to no other request.
\<close>

theorem swipe_fields_checked_by_truthiness:
  "(swiperId req = Some (JNum 0) \<or> targetId req = Some (JNum 0) \<longrightarrow>
      post_swipe db req = (db, swipe_invalid)) \<and>
   post_swipe db (req\<lparr>swiperId := Some (JNum 0)\<rparr>) = post_swipe db (req\<lparr>swiperId := None\<rparr>) \<and>
   post_swipe db (req\<lparr>targetId := Some (JNum 0)\<rparr>) = post_swipe db (req\<lparr>targetId := None\<rparr>) \<and>
   (direction req \<noteq> Some ''left'' \<and> direction req \<noteq> Some ''right'' \<longrightarrow>
      post_swipe db req = (db, swipe_invalid)) \<and>
   post_swipe db (req\<lparr>direction := Some ''Right''\<rparr>) = (db, swipe_invalid) \<and>
   post_swipe db (req\<lparr>direction := Some ''LEFT''\<rparr>) = (db, swipe_invalid) \<and>
   status swipe_invalid = 400 \<and>
   (snd (post_swipe db req) = swipe_invalid \<longleftrightarrow>
      \<not> truthy (swiperId req) \<or> \<not> truthy (targetId req) \<or>
      direction req \<notin> {Some ''left'', Some ''right''})"
proof (intro conjI impI)
  assume "swiperId req = Some (JNum 0) \<or> targetId req = Some (JNum 0)"
  then show "post_swipe db req = (db, swipe_invalid)"
    by (intro post_swipe_invalid) auto
next
  show "post_swipe db (req\<lparr>swiperId := Some (JNum 0)\<rparr>) = post_swipe db (req\<lparr>swiperId := None\<rparr>)"
    by (simp add: post_swipe_invalid)
next
  show "post_swipe db (req\<lparr>targetId := Some (JNum 0)\<rparr>) = post_swipe db (req\<lparr>targetId := None\<rparr>)"
    by (simp add: post_swipe_invalid)
next
  assume "direction req \<noteq> Some ''left'' \<and> direction req \<noteq> Some ''right''"
  then show "post_swipe db req = (db, swipe_invalid)"
    by (intro post_swipe_invalid) auto
next
  show "post_swipe db (req\<lparr>direction := Some ''Right''\<rparr>) = (db, swipe_invalid)"
    by (simp add: post_swipe_invalid)
next
  show "post_swipe db (req\<lparr>direction := Some ''LEFT''\<rparr>) = (db, swipe_invalid)"
    by (simp add: post_swipe_invalid)
next
  show "status swipe_invalid = 400" by (simp add: swipe_invalid_def)
next
  show "snd (post_swipe db req) = swipe_invalid \<longleftrightarrow>
      \<not> truthy (swiperId req) \<or> \<not> truthy (targetId req) \<or>
      direction req \<notin> {Some ''left'', Some ''right''}"
  proof
    assume a: "snd (post_swipe db req) = swipe_invalid"
    show "\<not> truthy (swiperId req) \<or> \<not> truthy (targetId req) \<or>
      direction req \<notin> {Some ''left'', Some ''right''}"
    proof (rule ccontr)
      assume "\<not> ?thesis"
      then obtain x y d where v: "swiperId req = Some x" "targetId req = Some y"
        "direction req = Some d" "truthy (Some x)" "truthy (Some y)"
        "d = ''left'' \<or> d = ''right''"
        by (cases "swiperId req"; cases "targetId req"; cases "direction req") auto
      have "status (snd (post_swipe db req)) \<noteq> 400 \<or> snd (post_swipe db req) = swipe_self"
        using v
        by (auto simp: post_swipe_def Let_def swipe_saved_def swipe_existing_match_def
            swipe_new_match_def swipe_failed_def split: prod.splits sum.splits option.splits)
      with a show False by (auto simp: swipe_invalid_def swipe_self_def)
    qed
  next
    assume "\<not> truthy (swiperId req) \<or> \<not> truthy (targetId req) \<or>
      direction req \<notin> {Some ''left'', Some ''right''}"
    then show "snd (post_swipe db req) = swipe_invalid"
      by (simp add: post_swipe_invalid)
  qed
qed

theorem swipe_fields_checked_by_truthiness_witness:
  "post_swipe db_first \<lparr>swiperId = Some (JNum 0), targetId = Some (JNum 5), direction = Some ''right''\<rparr> =
     (db_first, swipe_invalid) \<and>
   post_swipe db_first \<lparr>swiperId = Some (JNum 9), targetId = Some (JNum 0), direction = Some ''right''\<rparr> =
     (db_first, swipe_invalid) \<and>
   post_swipe db_first \<lparr>swiperId = Some (JNum 9), targetId = Some (JNum 5), direction = Some ''Right''\<rparr> =
     (db_first, swipe_invalid) \<and>
   snd (post_swipe db_first \<lparr>swiperId = Some (JNum 9), targetId = Some (JNum 5), direction = Some ''right''\<rparr>)
     \<noteq> swipe_invalid"
proof -
  note a = swipe_fields_checked_by_truthiness
    [of "\<lparr>swiperId = Some (JNum 0), targetId = Some (JNum 5), direction = Some ''right''\<rparr>" db_first]
  note b = swipe_fields_checked_by_truthiness
    [of "\<lparr>swiperId = Some (JNum 9), targetId = Some (JNum 0), direction = Some ''right''\<rparr>" db_first]
  note c = swipe_fields_checked_by_truthiness
    [of "\<lparr>swiperId = Some (JNum 9), targetId = Some (JNum 5), direction = Some ''right''\<rparr>" db_first]
  from a have "post_swipe db_first \<lparr>swiperId = Some (JNum 0), targetId = Some (JNum 5), direction = Some ''right''\<rparr> =
     (db_first, swipe_invalid)" by simp
  moreover from b have "post_swipe db_first \<lparr>swiperId = Some (JNum 9), targetId = Some (JNum 0), direction = Some ''right''\<rparr> =
     (db_first, swipe_invalid)" by simp
  moreover from c have "post_swipe db_first \<lparr>swiperId = Some (JNum 9), targetId = Some (JNum 5), direction = Some ''Right''\<rparr> =
     (db_first, swipe_invalid)" by simp
  moreover from c have "snd (post_swipe db_first \<lparr>swiperId = Some (JNum 9), targetId = Some (JNum 5), direction = Some ''right''\<rparr>)
     \<noteq> swipe_invalid" by simp
  ultimately show ?thesis by blast
qed

end
